theory Spec2Isabelle
  imports Complex_Main
begin

section \<open>JavaScript values read by the form validation\<close>

text \<open>
  The query form hands its \<open>formData\<close> object to \<open>validate\<close>. An object is a finite map
  from property names to values; reading a property the object does not have
  gives \<open>undefined\<close>. Numbers are the finite numbers (read as reals: every double is
  one), the two infinities and NaN.
\<close>

datatype jsnum = NaN | NegInf | Fin real | PosInf

datatype jsval =
    JUndefined
  | JNull
  | JBool bool
  | JNum jsnum
  | JStr string
  | JArr "jsval list"

type_synonym jsobj = "string \<rightharpoonup> jsval"

definition getprop :: "jsobj \<Rightarrow> string \<Rightarrow> jsval" where
  "getprop obj k = (case obj k of None \<Rightarrow> JUndefined | Some v \<Rightarrow> v)"

text \<open>
  The two conversions of the language that depend on number syntax are not part of the
  repository; the relational operators take them as a parameter: \<open>StringToNumber\<close>
  (the numeric value of a string, NaN when it is not a numeric literal) and
  \<open>ArrayToString\<close> (what \<open>Array.prototype.toString\<close> returns).
\<close>

record js_conv =
  StringToNumber :: "string \<Rightarrow> jsnum"
  ArrayToString :: "jsval list \<Rightarrow> string"

fun ToPrimitive :: "js_conv \<Rightarrow> jsval \<Rightarrow> jsval" where
  "ToPrimitive cv (JArr xs) = JStr (ArrayToString cv xs)"
| "ToPrimitive cv v = v"

fun ToNumber :: "js_conv \<Rightarrow> jsval \<Rightarrow> jsnum" where
  "ToNumber cv JUndefined = NaN"
| "ToNumber cv JNull = Fin 0"
| "ToNumber cv (JBool b) = (if b then Fin 1 else Fin 0)"
| "ToNumber cv (JNum n) = n"
| "ToNumber cv (JStr s) = StringToNumber cv s"
| "ToNumber cv (JArr xs) = StringToNumber cv (ArrayToString cv xs)"

text \<open>\<open>x < y\<close> on numbers: false as soon as one side is NaN.\<close>

fun num_lt :: "jsnum \<Rightarrow> jsnum \<Rightarrow> bool" where
  "num_lt NaN _ = False"
| "num_lt _ NaN = False"
| "num_lt (Fin a) (Fin b) = (a < b)"
| "num_lt NegInf NegInf = False"
| "num_lt NegInf _ = True"
| "num_lt _ NegInf = False"
| "num_lt PosInf _ = False"
| "num_lt _ PosInf = True"

text \<open>Strings compare code unit by code unit; a proper prefix is the smaller string.\<close>

fun str_lt :: "string \<Rightarrow> string \<Rightarrow> bool" where
  "str_lt [] [] = False"
| "str_lt [] (y # ys) = True"
| "str_lt (x # xs) [] = False"
| "str_lt (x # xs) (y # ys) =
     (if x = y then str_lt xs ys else (of_char x :: nat) < of_char y)"

text \<open>
  The relational operator \<open>a < b\<close>: both operands are made primitive; two strings are
  compared as strings, anything else as numbers. \<open>a > b\<close> is \<open>b < a\<close>.
\<close>

definition js_lt :: "js_conv \<Rightarrow> jsval \<Rightarrow> jsval \<Rightarrow> bool" where
  "js_lt cv a b =
     (case (ToPrimitive cv a, ToPrimitive cv b) of
        (JStr s, JStr t) \<Rightarrow> str_lt s t
      | (p, q) \<Rightarrow> num_lt (ToNumber cv p) (ToNumber cv q))"

definition js_gt :: "js_conv \<Rightarrow> jsval \<Rightarrow> jsval \<Rightarrow> bool" where
  "js_gt cv a b = js_lt cv b a"

section \<open>The query form's custom validation\<close>

text \<open>
  \<open>validate(formData, errors)\<close> of \<open>GcnSelectionForm\<close>. The \<open>errors\<close> object comes from
  the form library and is taken as it is passed: a map from field names to the list
  of messages added so far. \<open>errors.f.addError(m)\<close> appends \<open>m\<close> to the list of \<open>f\<close>;
  when \<open>errors\<close> has no property \<open>f\<close> the call is made on \<open>undefined\<close> and throws a
  TypeError.

  The number literal \<open>1.01\<close> of the source denotes the double nearest to it,
  \<open>4548635623644201 / 2^52\<close>.
\<close>

datatype js_error = TypeError

type_synonym form_errors = "string \<rightharpoonup> string list"

definition addError :: "form_errors \<Rightarrow> string \<Rightarrow> string \<Rightarrow> js_error + form_errors" where
  "addError errors field msg =
     (case errors field of
        None \<Rightarrow> Inl TypeError
      | Some msgs \<Rightarrow> Inr (errors(field \<mapsto> msgs @ [msg])))"

definition lit_1_01 :: real where
  "lit_1_01 = 4548635623644201 / 4503599627370496"

definition validate :: "js_conv \<Rightarrow> jsobj \<Rightarrow> form_errors \<Rightarrow> js_error + form_errors" where
  "validate cv formData errors =
     (case (if js_gt cv (getprop formData ''start_date'') (getprop formData ''end_date'')
            then addError errors ''start_date''
                   ''Start date must be before end date, please fix.''
            else Inr errors) of
        Inl e \<Rightarrow> Inl e
      | Inr errors1 \<Rightarrow>
          (if js_lt cv (getprop formData ''localizationCumprob'') (JNum (Fin 0)) \<or>
              js_gt cv (getprop formData ''localizationCumprob'') (JNum (Fin lit_1_01))
           then addError errors1 ''cumulative''
                  ''Value of cumulative should be between 0 and 1''
           else Inr errors1))"

text \<open>
  The properties of \<open>GcnSourceSelectionFormSchema\<close>. The form is given no initial data, so
  the \<open>formData\<close> it builds has these properties and no other, and the library's
  \<open>errors\<close> object has one (empty) entry for each property of \<open>formData\<close>.
\<close>

definition schema_properties :: "string list" where
  "schema_properties =
     [''startDate'', ''endDate'', ''numberDetections'', ''localizationCumprob'',
      ''maxDistance'', ''localizationRejectSources'', ''queryList'', ''group_ids'']"

definition fresh_errors :: "string list \<Rightarrow> form_errors" where
  "fresh_errors keys = map_of (map (\<lambda>k. (k, [])) keys)"

section \<open>Instruments, localizations and the selection defaults\<close>

record instrument =
  inst_id :: int
  inst_name :: string
  telescope_id :: int

record localization =
  loc_id :: int
  localization_name :: string
  created_at :: string

text \<open>
  The event of the store: \<open>gcnEvent?.dateobs\<close> and \<open>gcnEvent?.localizations\<close> may both be
  missing while the event is loading.
\<close>

record gcn_event =
  ev_dateobs :: "string option"
  ev_localizations :: "localization list option"

text \<open>
  \<open>Array.prototype.sort\<close> belongs to the engine. It is modelled as the stable insertion
  sort: each element in turn is placed into the sorted prefix, before the first element
  the comparator puts it in front of (\<open>cmp x y < 0\<close>).
\<close>

fun sort_insert :: "('a \<Rightarrow> 'a \<Rightarrow> int) \<Rightarrow> 'a \<Rightarrow> 'a list \<Rightarrow> 'a list" where
  "sort_insert cmp x [] = [x]"
| "sort_insert cmp x (y # ys) =
     (if cmp x y < 0 then x # y # ys else y # sort_insert cmp x ys)"

definition array_sort :: "('a \<Rightarrow> 'a \<Rightarrow> int) \<Rightarrow> 'a list \<Rightarrow> 'a list" where
  "array_sort cmp xs = foldl (\<lambda>acc x. sort_insert cmp x acc) [] xs"

text \<open>\<open>xs[0]\<close>, undefined on the empty array.\<close>

definition at0 :: "'a list \<Rightarrow> 'a option" where
  "at0 xs = (case xs of [] \<Rightarrow> None | x # _ \<Rightarrow> Some x)"

text \<open>The comparator of \<open>sortedInstrumentList\<close>: by name.\<close>

definition compareByName :: "instrument \<Rightarrow> instrument \<Rightarrow> int" where
  "compareByName i1 i2 =
     (if str_lt (inst_name i2) (inst_name i1) then 1
      else if str_lt (inst_name i1) (inst_name i2) then - 1
      else 0)"

definition sortedInstrumentList :: "instrument list \<Rightarrow> instrument list" where
  "sortedInstrumentList instrumentList = array_sort compareByName instrumentList"

text \<open>The comparator of \<open>setDefaults\<close>: the instrument called ZTF first, then by id.\<close>

definition compareForDefault :: "instrument \<Rightarrow> instrument \<Rightarrow> int" where
  "compareForDefault i1 i2 =
     (if inst_name i1 = ''ZTF'' then - 1
      else if inst_name i2 = ''ZTF'' then 1
      else if inst_id i1 > inst_id i2 then 1
      else if inst_id i2 > inst_id i1 then - 1
      else 0)"

record selection =
  selectedInstrumentId :: "int option"
  selectedLocalizationId :: "int option"
  selectedLocalizationName :: "string option"

definition setDefaults :: "instrument list \<Rightarrow> localization list \<Rightarrow> selection" where
  "setDefaults instrumentList localizations =
     (let orderedInstrumentList = array_sort compareForDefault instrumentList in
      \<lparr>selectedInstrumentId = map_option inst_id (at0 orderedInstrumentList),
       selectedLocalizationId = map_option loc_id (at0 localizations),
       selectedLocalizationName = map_option localization_name (at0 localizations)\<rparr>)"

text \<open>
  The body of the effect around \<open>setDefaults\<close>: \<open>setDefaults\<close> is called only when the
  loaded event is the one of the page (\<open>dateobs\<close> non-empty and equal to the event's), and
  both the instrument list and the event's localizations are non-empty. Otherwise the
  selection stays.
\<close>

definition defaultsEffect_body ::
  "string \<Rightarrow> gcn_event option \<Rightarrow> instrument list \<Rightarrow> selection \<Rightarrow> selection" where
  "defaultsEffect_body dateobs gcnEvent instrumentList sel =
     (case gcnEvent of
        None \<Rightarrow> sel
      | Some ev \<Rightarrow>
          (case ev_localizations ev of
             None \<Rightarrow> sel
           | Some localizations \<Rightarrow>
               if Some dateobs = ev_dateobs ev \<and> dateobs \<noteq> [] \<and>
                  length instrumentList > 0 \<and> length localizations > 0
               then setDefaults instrumentList localizations
               else sel))"

text \<open>
  The effect's dependency array is \<open>[dispatch, gcnEvent]\<close>, and \<open>dispatch\<close> never changes:
  the body runs after the first render, and after a render in which \<open>gcnEvent\<close> is
  another object than in the render before. A change of \<open>instrumentList\<close> or of
  \<open>dateobs\<close> alone does not run it. A render is given by the values the effect reads
  and by the identity of the store's \<open>gcnEvent\<close> object (a number that is new whenever
  the store replaces the object).
\<close>

record render =
  gcnEvent_ref :: nat
  render_dateobs :: string
  render_gcnEvent :: "gcn_event option"
  render_instrumentList :: "instrument list"

definition depsChanged :: "render option \<Rightarrow> render \<Rightarrow> bool" where
  "depsChanged previous r =
     (case previous of None \<Rightarrow> True | Some p \<Rightarrow> gcnEvent_ref p \<noteq> gcnEvent_ref r)"

definition defaultsEffect :: "render option \<Rightarrow> render \<Rightarrow> selection \<Rightarrow> selection" where
  "defaultsEffect previous r sel =
     (if depsChanged previous r
      then defaultsEffect_body (render_dateobs r) (render_gcnEvent r) (render_instrumentList r) sel
      else sel)"

text \<open>The effect over the renders of the component, in order, from the first one.\<close>

fun runDefaultsEffect :: "render option \<Rightarrow> render list \<Rightarrow> selection \<Rightarrow> selection" where
  "runDefaultsEffect previous [] sel = sel"
| "runDefaultsEffect previous (r # rs) sel =
     runDefaultsEffect (Some r) rs (defaultsEffect previous r sel)"

text \<open>The selection the component starts with: the \<open>useState(null)\<close> cells.\<close>

definition selection_init :: selection where
  "selection_init =
     \<lparr>selectedInstrumentId = None, selectedLocalizationId = None,
      selectedLocalizationName = None\<rparr>"

section \<open>Lookup tables and the sky-map overlay fetch\<close>

text \<open>
  \<open>instLookUp\<close> and \<open>locLookUp\<close> are filled by a \<open>forEach\<close> over the list: a later entry
  with the same id replaces an earlier one. A selected id that is \<open>null\<close> is no key of
  either table.
\<close>

definition instLookUp :: "instrument list \<Rightarrow> (int \<rightharpoonup> instrument)" where
  "instLookUp instrumentList =
     foldl (\<lambda>m instrumentObj. m(inst_id instrumentObj \<mapsto> instrumentObj)) Map.empty
       (sortedInstrumentList instrumentList)"

definition locLookUp :: "gcn_event option \<Rightarrow> (int \<rightharpoonup> localization)" where
  "locLookUp gcnEvent =
     (case Option.bind gcnEvent ev_localizations of
        None \<Rightarrow> Map.empty
      | Some localizations \<Rightarrow> foldl (\<lambda>m loc. m(loc_id loc \<mapsto> loc)) Map.empty localizations)"

text \<open>\<open>gcnEvent?.localizations\<close> as a list: empty when the event or the field is missing.\<close>

definition eventLocalizations :: "gcn_event option \<Rightarrow> localization list" where
  "eventLocalizations gcnEvent =
     (case Option.bind gcnEvent ev_localizations of None \<Rightarrow> [] | Some ls \<Rightarrow> ls)"

definition lookUp :: "(int \<rightharpoonup> 'a) \<Rightarrow> int option \<Rightarrow> 'a option" where
  "lookUp table key = (case key of None \<Rightarrow> None | Some k \<Rightarrow> table k)"

text \<open>
  The request \<open>fetchInstrumentSkymap(instLookUp[selectedInstrumentId]?.id,
  locLookUp[selectedLocalizationId])\<close>, with its two arguments as computed.
\<close>

datatype skymap_request = FetchInstrumentSkymap "int option" "localization option"

definition fetchSkymapInstrumentEffect ::
  "instrument list \<Rightarrow> gcn_event option \<Rightarrow> int option \<Rightarrow> int option \<Rightarrow> skymap_request option" where
  "fetchSkymapInstrumentEffect instrumentList gcnEvent selInstrumentId selLocalizationId =
     (if lookUp (instLookUp instrumentList) selInstrumentId \<noteq> None \<and>
         lookUp (locLookUp gcnEvent) selLocalizationId \<noteq> None
      then Some (FetchInstrumentSkymap
                   (map_option inst_id (lookUp (instLookUp instrumentList) selInstrumentId))
                   (lookUp (locLookUp gcnEvent) selLocalizationId))
      else None)"

section \<open>The results tabs\<close>

text \<open>
  What a tab pane shows: a line of text, one of the three table components with the
  rows it is given, or nothing at all. The store entries \<open>gcnEventSources\<close>,
  \<open>gcnEventGalaxies\<close> and \<open>gcnEventObservations\<close> may be missing, and so may the
  collection inside each. The localization name is a string, \<open>null\<close> or \<open>undefined\<close>; it
  counts as present (truthy) when it is a non-empty string.
\<close>

record 'a gcnEventSources =
  sources :: "'a list option"

record 'a gcnEventGalaxies =
  galaxies :: "'a list option"
  galaxies_totalMatches :: "nat option"

record 'a gcnEventObservations =
  observations :: "'a list option"
  observations_totalMatches :: "nat option"

datatype 'a pane =
    Typography string
  | SourceTable "'a list option"
  | NoSourcesWithinLocalization
  | GalaxyTable "'a list" "nat option"
  | ExecutedObservationsTable "'a list" "nat option"
  | Nothing

definition GcnEventSourcesPage :: "'a gcnEventSources option \<Rightarrow> string \<Rightarrow> 'a pane" where
  "GcnEventSourcesPage srcs localizationName =
     (case srcs of
        None \<Rightarrow> NoSourcesWithinLocalization
      | Some r \<Rightarrow>
          if map_option length (sources r) = Some 0 then NoSourcesWithinLocalization
          else SourceTable (sources r))"

definition sourcesTab :: "'a gcnEventSources option \<Rightarrow> string option \<Rightarrow> 'a pane" where
  "sourcesTab gcnEventSources selLocalizationName =
     (case Option.bind gcnEventSources sources of
        None \<Rightarrow> Typography ''Fetching sources...''
      | Some xs \<Rightarrow>
          if length xs = 0 then Typography ''None''
          else (case selLocalizationName of
                  None \<Rightarrow> Nothing
                | Some n \<Rightarrow> if n = [] then Nothing else GcnEventSourcesPage gcnEventSources n))"

definition galaxiesTab :: "'a gcnEventGalaxies option \<Rightarrow> 'a pane" where
  "galaxiesTab gcnEventGalaxies =
     (case Option.bind gcnEventGalaxies galaxies of
        None \<Rightarrow> Typography ''Fetching galaxies...''
      | Some xs \<Rightarrow>
          if length xs = 0 then Typography ''None''
          else GalaxyTable xs (Option.bind gcnEventGalaxies galaxies_totalMatches))"

definition observationsTab :: "'a gcnEventObservations option \<Rightarrow> 'a pane" where
  "observationsTab gcnEventObservations =
     (case Option.bind gcnEventObservations observations of
        None \<Rightarrow> Typography ''Fetching observations...''
      | Some xs \<Rightarrow>
          if length xs = 0 then Typography ''None''
          else ExecutedObservationsTable xs
                 (Option.bind gcnEventObservations observations_totalMatches))"

section \<open>The Treasure Map actions\<close>

text \<open>
  The state the two Treasure Map controls depend on. \<open>isSubmittingTreasureMap\<close> holds
  the id the last started submission was made for, or \<open>null\<close>. The submissions whose
  dispatch has not resolved yet are kept beside it, one entry for each.
\<close>

record tm_state =
  tm_selectedInstrumentId :: "int option"
  isSubmittingTreasureMap :: "int option"
  submissionsInFlight :: "int option list"

datatype tm_control = CircularProgress | SendToTreasureMapButton

definition submitControl :: "tm_state \<Rightarrow> tm_control" where
  "submitControl s =
     (if isSubmittingTreasureMap s = tm_selectedInstrumentId s then CircularProgress
      else SendToTreasureMapButton)"

text \<open>
  \<open>handleSubmitTreasureMap(id, filterParams)\<close>, cut at its \<open>await\<close>: up to the dispatch,
  and from the moment the dispatch resolves.
\<close>

definition handleSubmitTreasureMap_start :: "int option \<Rightarrow> tm_state \<Rightarrow> tm_state" where
  "handleSubmitTreasureMap_start i s =
     s\<lparr>isSubmittingTreasureMap := i, submissionsInFlight := i # submissionsInFlight s\<rparr>"

definition handleSubmitTreasureMap_resume :: "int option \<Rightarrow> tm_state \<Rightarrow> tm_state" where
  "handleSubmitTreasureMap_resume i s =
     s\<lparr>isSubmittingTreasureMap := None,
       submissionsInFlight := remove1 i (submissionsInFlight s)\<rparr>"

text \<open>
  What can happen to the controls: the user picks an instrument, presses the button
  (only when it is the button that is shown), or a submission in flight resolves.
\<close>

datatype tm_event = SelectInstrument int | ClickSubmit | SubmitResolved "int option"

definition tm_step :: "tm_event \<Rightarrow> tm_state \<Rightarrow> tm_state option" where
  "tm_step e s =
     (case e of
        SelectInstrument i \<Rightarrow> Some (s\<lparr>tm_selectedInstrumentId := Some i\<rparr>)
      | ClickSubmit \<Rightarrow>
          if submitControl s = SendToTreasureMapButton
          then Some (handleSubmitTreasureMap_start (tm_selectedInstrumentId s) s)
          else None
      | SubmitResolved i \<Rightarrow>
          if i \<in> set (submissionsInFlight s)
          then Some (handleSubmitTreasureMap_resume i s)
          else None)"

fun tm_run :: "tm_event list \<Rightarrow> tm_state \<Rightarrow> tm_state option" where
  "tm_run [] s = Some s"
| "tm_run (e # es) s = (case tm_step e s of None \<Rightarrow> None | Some s' \<Rightarrow> tm_run es s')"

definition tm_init :: tm_state where
  "tm_init = \<lparr>tm_selectedInstrumentId = None, isSubmittingTreasureMap = None,
              submissionsInFlight = []\<rparr>"

section \<open>The API trigger selector\<close>

text \<open>
  The state of \<open>SkymapTriggerAPIDisplay\<close>: its four \<open>useState\<close> cells and the values of
  its form (\<open>gcneventid\<close> and \<open>localizationid\<close>, each the empty string or an id).
\<close>

datatype form_value = EmptyString | IdValue int

record trigger_widget =
  selectedAllocationId :: "int option"
  triggerList :: "string list"
  selectedTriggerName :: string
  selectedGcnEventId :: "int option"
  formValues :: "string \<rightharpoonup> form_value"

definition trigger_widget_init :: trigger_widget where
  "trigger_widget_init =
     \<lparr>selectedAllocationId = None, triggerList = [''None''],
      selectedTriggerName = ''None'', selectedGcnEventId = None,
      formValues = [''gcneventid'' \<mapsto> EmptyString, ''localizationid'' \<mapsto> EmptyString]\<rparr>"

text \<open>
  The response of \<open>requestAPISkymapTriggers\<close>: the response itself, its \<open>data\<close> and
  the \<open>trigger_names\<close> inside may each be missing.
\<close>

record triggers_data =
  trigger_names :: "string list option"

record api_response =
  response_data :: "triggers_data option"

text \<open>
  \<open>getTriggers\<close>: the request is made only for a truthy allocation id (not \<open>null\<close>, not 0)
  and a non-empty allocation list. The dispatch is awaited; its outcome is given by
  \<open>requestAPISkymapTriggers\<close>. \<open>setTriggers\<close> is the part after the \<open>await\<close>.
\<close>

definition setTriggers :: "api_response option \<Rightarrow> trigger_widget \<Rightarrow> trigger_widget" where
  "setTriggers response s =
     (case Option.bind (Option.bind response response_data) trigger_names of
        None \<Rightarrow> s\<lparr>triggerList := [''None''], selectedTriggerName := ''None''\<rparr>
      | Some names \<Rightarrow>
          (case names of
             [] \<Rightarrow> s\<lparr>triggerList := [''None''], selectedTriggerName := ''None''\<rparr>
           | first # _ \<Rightarrow> s\<lparr>triggerList := names, selectedTriggerName := first\<rparr>))"

definition getTriggers ::
  "(int \<Rightarrow> api_response option) \<Rightarrow> 'a list option \<Rightarrow> trigger_widget \<Rightarrow> trigger_widget" where
  "getTriggers requestAPISkymapTriggers allocationListApiObsplan s =
     (case selectedAllocationId s of
        None \<Rightarrow> s
      | Some a \<Rightarrow>
          if a \<noteq> 0 \<and> (case allocationListApiObsplan of None \<Rightarrow> False | Some l \<Rightarrow> length l > 0)
          then setTriggers (requestAPISkymapTriggers a) s
          else s)"

definition handleSelectedTriggerNameChange :: "string \<Rightarrow> trigger_widget \<Rightarrow> trigger_widget" where
  "handleSelectedTriggerNameChange v s = s\<lparr>selectedTriggerName := v\<rparr>"

text \<open>
  The menu of the GCN event selector, as pairs of value and label: the entry
  \<open>{id: -1, dateobs: "Clear Selection"}\<close> followed by the events of the store.
\<close>

record gcn_event_entry =
  entry_id :: int
  entry_dateobs :: string
  entry_localizations :: "localization list"

definition gcnEventsLookUp :: "gcn_event_entry list \<Rightarrow> (int \<rightharpoonup> gcn_event_entry)" where
  "gcnEventsLookUp events =
     foldl (\<lambda>m gcnEvent. m(entry_id gcnEvent \<mapsto> gcnEvent)) Map.empty events"

definition gcnEventsSelect :: "gcn_event_entry list \<Rightarrow> (int \<times> string) list" where
  "gcnEventsSelect events =
     (- 1, ''Clear Selection'') # map (\<lambda>gcnEvent. (entry_id gcnEvent, entry_dateobs gcnEvent)) events"

text \<open>
  The \<open>onChange\<close> of the GCN event selector, for the chosen value \<open>v\<close>: the form is reset to
  its current values with \<open>gcneventid\<close> and \<open>localizationid\<close> replaced, then
  \<open>selectedGcnEventId\<close> is set. \<open>x || ""\<close> gives the empty string for a missing id and
  for the id 0.
\<close>

definition firstLocalizationId :: "gcn_event_entry list \<Rightarrow> int \<Rightarrow> form_value" where
  "firstLocalizationId events v =
     (case gcnEventsLookUp events v of
        None \<Rightarrow> EmptyString
      | Some gcnEvent \<Rightarrow>
          (case at0 (entry_localizations gcnEvent) of
             None \<Rightarrow> EmptyString
           | Some loc \<Rightarrow> if loc_id loc = 0 then EmptyString else IdValue (loc_id loc)))"

definition handleGcnEventChange ::
  "gcn_event_entry list \<Rightarrow> int \<Rightarrow> trigger_widget \<Rightarrow> trigger_widget" where
  "handleGcnEventChange events v s =
     s\<lparr>formValues := (formValues s)
          (''gcneventid'' \<mapsto> (if v = - 1 then EmptyString else IdValue v),
           ''localizationid'' \<mapsto>
              (if v = - 1 then EmptyString else firstLocalizationId events v)),
       selectedGcnEventId := Some v\<rparr>"

section \<open>The Recent Events widget\<close>

record recent_prefs =
  maxNumEvents :: string

definition defaultPrefs :: recent_prefs where
  "defaultPrefs = \<lparr>maxNumEvents = ''5''\<rparr>"

text \<open>
  \<open>state.profile.preferences?.recentGcnEvents || defaultPrefs\<close>: the stored preferences
  when there are some, the default otherwise.
\<close>

definition recentEventsPrefs :: "recent_prefs option \<Rightarrow> recent_prefs" where
  "recentEventsPrefs stored = (case stored of None \<Rightarrow> defaultPrefs | Some p \<Rightarrow> p)"

record recent_event =
  recent_dateobs :: string

text \<open>
  What the widget renders: the preferences dialog with its initial value, and one list
  item for each event of the store (\<open>gcnEvents?.map\<close>: none when the store is missing),
  keyed by the event's \<open>dateobs\<close> and linking to its page.
\<close>

record event_item =
  item_key :: string
  item_link :: string

record recent_widget =
  dialog_maxNumEvents :: string
  eventList :: "event_item list"

definition RecentGcnEvents :: "recent_prefs option \<Rightarrow> recent_event list option \<Rightarrow> recent_widget" where
  "RecentGcnEvents storedPrefs gcnEvents =
     \<lparr>dialog_maxNumEvents = maxNumEvents (recentEventsPrefs storedPrefs),
      eventList =
        (case gcnEvents of
           None \<Rightarrow> []
         | Some events \<Rightarrow>
             map (\<lambda>gcnEvent. \<lparr>item_key = recent_dateobs gcnEvent,
                              item_link = ''/gcn_events/'' @ recent_dateobs gcnEvent\<rparr>) events)\<rparr>"

section \<open>Concrete inputs\<close>

text \<open>
  A form whose start date lies a week after its end date, and a form whose cumulative
  probability is 2. Both have the properties the schema gives them and no other.
\<close>

definition formData_late_start :: jsobj where
  "formData_late_start =
     [''startDate'' \<mapsto> JStr ''2023-04-10 00:00:00'',
      ''endDate'' \<mapsto> JStr ''2023-04-03 00:00:00'',
      ''numberDetections'' \<mapsto> JNum (Fin 2),
      ''localizationCumprob'' \<mapsto> JNum (Fin 0.5),
      ''maxDistance'' \<mapsto> JNum (Fin 150),
      ''queryList'' \<mapsto> JArr [JStr ''sources''],
      ''group_ids'' \<mapsto> JArr [JNum (Fin 1)]]"

definition formData_cumprob_2 :: jsobj where
  "formData_cumprob_2 =
     [''startDate'' \<mapsto> JStr ''2023-04-03 00:00:00'',
      ''endDate'' \<mapsto> JStr ''2023-04-10 00:00:00'',
      ''numberDetections'' \<mapsto> JNum (Fin 2),
      ''localizationCumprob'' \<mapsto> JNum (Fin 2),
      ''maxDistance'' \<mapsto> JNum (Fin 150),
      ''queryList'' \<mapsto> JArr [JStr ''sources''],
      ''group_ids'' \<mapsto> JArr [JNum (Fin 1)]]"

definition example_instruments :: "instrument list" where
  "example_instruments =
     [\<lparr>inst_id = 3, inst_name = ''SEDM'', telescope_id = 1\<rparr>,
      \<lparr>inst_id = 7, inst_name = ''ZTF'', telescope_id = 2\<rparr>,
      \<lparr>inst_id = 1, inst_name = ''KAIT'', telescope_id = 4\<rparr>]"

definition example_instruments_without_ZTF :: "instrument list" where
  "example_instruments_without_ZTF =
     [\<lparr>inst_id = 3, inst_name = ''SEDM'', telescope_id = 1\<rparr>,
      \<lparr>inst_id = 1, inst_name = ''KAIT'', telescope_id = 4\<rparr>]"

definition example_localizations :: "localization list" where
  "example_localizations =
     [\<lparr>loc_id = 11, localization_name = ''bayestar.fits'',
       created_at = ''2023-04-03T10:00:00''\<rparr>,
      \<lparr>loc_id = 5, localization_name = ''LALInference.fits'',
       created_at = ''2023-04-04T08:30:00''\<rparr>]"

definition example_event :: gcn_event where
  "example_event =
     \<lparr>ev_dateobs = Some ''2023-04-03T09:58:12'', ev_localizations = Some example_localizations\<rparr>"

definition example_event_without_localizations :: gcn_event where
  "example_event_without_localizations =
     \<lparr>ev_dateobs = Some ''2023-04-03T09:58:12'', ev_localizations = Some []\<rparr>"

text \<open>
  Renders of the page of the event 2023-04-03T09:58:12: with the event and the
  instruments loaded; the same with the list reversed and with no ZTF in the list;
  with an event that has no localization; and with the event loaded before the
  instruments (same \<open>gcnEvent\<close> object in both renders).
\<close>

definition example_render :: render where
  "example_render =
     \<lparr>gcnEvent_ref = 1, render_dateobs = ''2023-04-03T09:58:12'',
      render_gcnEvent = Some example_event, render_instrumentList = example_instruments\<rparr>"

definition example_render_without_localizations :: render where
  "example_render_without_localizations =
     \<lparr>gcnEvent_ref = 1, render_dateobs = ''2023-04-03T09:58:12'',
      render_gcnEvent = Some example_event_without_localizations,
      render_instrumentList = example_instruments\<rparr>"

definition example_render_before_instruments :: render where
  "example_render_before_instruments =
     \<lparr>gcnEvent_ref = 1, render_dateobs = ''2023-04-03T09:58:12'',
      render_gcnEvent = Some example_event, render_instrumentList = []\<rparr>"

definition example_triggers_response :: "api_response option" where
  "example_triggers_response =
     Some \<lparr>response_data = Some \<lparr>trigger_names = Some [''S230401a'', ''S230402b'']\<rparr>\<rparr>"

definition six_recent_events :: "recent_event list" where
  "six_recent_events =
     [\<lparr>recent_dateobs = ''2023-04-01T00:00:00''\<rparr>, \<lparr>recent_dateobs = ''2023-04-02T00:00:00''\<rparr>,
      \<lparr>recent_dateobs = ''2023-04-03T00:00:00''\<rparr>, \<lparr>recent_dateobs = ''2023-04-04T00:00:00''\<rparr>,
      \<lparr>recent_dateobs = ''2023-04-05T00:00:00''\<rparr>, \<lparr>recent_dateobs = ''2023-04-06T00:00:00''\<rparr>]"

section \<open>Properties of the form validation\<close>

lemma num_lt_NaN_right: "num_lt n NaN = False"
  by (cases n) simp_all

lemma js_gt_undefined: "js_gt cv JUndefined v = False"
  by (cases v) (simp_all add: js_gt_def js_lt_def num_lt_NaN_right)

lemma js_gt_undefined_right: "js_gt cv v JUndefined = False"
  by (cases v) (simp_all add: js_gt_def js_lt_def)

text \<open>
  An object without the property \<open>start_date\<close>, or without \<open>end_date\<close>, never gets past
  the first check: only the second check of \<open>validate\<close> decides.
\<close>

lemma validate_without_start_date:
  assumes "formData ''start_date'' = None \<or> formData ''end_date'' = None"
  shows "validate cv formData errors =
           (if js_lt cv (getprop formData ''localizationCumprob'') (JNum (Fin 0)) \<or>
               js_gt cv (getprop formData ''localizationCumprob'') (JNum (Fin lit_1_01))
            then addError errors ''cumulative''
                   ''Value of cumulative should be between 0 and 1''
            else Inr errors)"
proof -
  from assms
  have "js_gt cv (getprop formData ''start_date'') (getprop formData ''end_date'') = False"
    by (auto simp add: getprop_def js_gt_undefined js_gt_undefined_right)
  then show ?thesis by (simp add: validate_def)
qed

text \<open>
  Whatever \<open>validate\<close> returns, the messages of the fields \<open>startDate\<close>, \<open>endDate\<close> and
  \<open>localizationCumprob\<close> are the ones that were passed in.
\<close>

lemma validate_keeps_schema_fields:
  assumes "validate cv formData errors = Inr errors'"
  shows "errors' ''startDate'' = errors ''startDate''"
    and "errors' ''endDate'' = errors ''endDate''"
    and "errors' ''localizationCumprob'' = errors ''localizationCumprob''"
  using assms
  by (auto simp add: validate_def addError_def split: if_splits option.splits sum.splits)

text \<open>
  A number below 0 or above 1.01 makes \<open>validate\<close> call \<open>errors.cumulative.addError\<close>;
  with no property \<open>cumulative\<close> in \<open>errors\<close> the call throws.
\<close>

lemma validate_out_of_range_throws:
  assumes "formData ''localizationCumprob'' = Some (JNum (Fin p))"
    and "p < 0 \<or> lit_1_01 < p"
    and "errors ''cumulative'' = None"
  shows "validate cv formData errors = Inl TypeError"
proof -
  from assms(1,2)
  have out: "js_lt cv (getprop formData ''localizationCumprob'') (JNum (Fin 0)) \<or>
             js_gt cv (getprop formData ''localizationCumprob'') (JNum (Fin lit_1_01))"
    by (auto simp add: getprop_def js_gt_def js_lt_def)
  have "addError errors1 ''cumulative'' msg = Inl TypeError"
    if "errors1 ''cumulative'' = None" for errors1 msg
    using that by (simp add: addError_def)
  with out assms(3) show ?thesis
    by (auto simp add: validate_def addError_def split: option.splits)
qed

text \<open>
  Claim C1 (start date after end date is rejected with a start-date error).
  The form \<open>formData_late_start\<close> has \<open>startDate\<close> 2023-04-10 and \<open>endDate\<close> 2023-04-03,
  so its start date is strictly greater than its end date. \<open>validate\<close> compares the
  properties \<open>start_date\<close> and \<open>end_date\<close>, which the form does not have: both read as
  \<open>undefined\<close>, the comparison is false, and the errors come back as they went in, with
  no message for any field. Nothing is there to block the submission.
\<close>

theorem validate_accepts_start_after_end:
  "js_gt cv (getprop formData_late_start ''startDate'') (getprop formData_late_start ''endDate'')
   \<and> validate cv formData_late_start (fresh_errors schema_properties) =
       Inr (fresh_errors schema_properties)
   \<and> fresh_errors schema_properties ''startDate'' = Some []"
  by (simp add: validate_def js_gt_def js_lt_def getprop_def formData_late_start_def
      lit_1_01_def fresh_errors_def schema_properties_def)

text \<open>
  Claim C2 (cumulative probability outside [0, 1.01] is rejected with a field error).
  The form \<open>formData_cumprob_2\<close> has \<open>localizationCumprob\<close> 2. \<open>validate\<close> detects it, but
  adds its message through \<open>errors.cumulative\<close>, while the field is called
  \<open>localizationCumprob\<close>: the \<open>errors\<close> object of the form has no property \<open>cumulative\<close>,
  and the call throws a TypeError instead of recording a message for the field.
\<close>

theorem validate_throws_on_cumprob_out_of_range:
  "js_gt cv (getprop formData_cumprob_2 ''localizationCumprob'') (JNum (Fin lit_1_01))
   \<and> fresh_errors schema_properties ''cumulative'' = None
   \<and> validate cv formData_cumprob_2 (fresh_errors schema_properties) = Inl TypeError"
  by (simp add: validate_def js_gt_def js_lt_def getprop_def formData_cumprob_2_def
      lit_1_01_def addError_def fresh_errors_def schema_properties_def)

section \<open>Properties of the selection defaults\<close>

lemma array_sort_snoc: "array_sort cmp (xs @ [x]) = sort_insert cmp x (array_sort cmp xs)"
  by (simp add: array_sort_def)

lemma set_sort_insert: "set (sort_insert cmp x ys) = insert x (set ys)"
  by (induction ys) auto

lemma set_array_sort: "set (array_sort cmp xs) = set xs"
  by (induction xs rule: rev_induct) (simp_all add: array_sort_def set_sort_insert)

lemma at0_sort_insert:
  "at0 (sort_insert cmp x ys) =
     (case at0 ys of None \<Rightarrow> Some x | Some y \<Rightarrow> if cmp x y < 0 then Some x else Some y)"
  by (cases ys) (simp_all add: at0_def)

lemma at0_None_iff: "at0 xs = None \<longleftrightarrow> xs = []"
  by (cases xs) (simp_all add: at0_def)

lemma at0_array_sort_mem:
  assumes "at0 (array_sort cmp xs) = Some y"
  shows "y \<in> set xs"
proof -
  from assms have "y \<in> set (array_sort cmp xs)"
    by (cases "array_sort cmp xs") (simp_all add: at0_def)
  then show ?thesis by (simp add: set_array_sort)
qed

text \<open>The first element after one more insertion depends on the old first element only.\<close>

lemma at0_array_sort_snoc:
  "at0 (array_sort cmp xs) = Some y \<Longrightarrow>
   at0 (array_sort cmp (xs @ [x])) = (if cmp x y < 0 then Some x else Some y)"
  by (simp add: array_sort_snoc at0_sort_insert)

lemma compareForDefault_neg_iff:
  "compareForDefault x y < 0 \<longleftrightarrow>
     inst_name x = ''ZTF'' \<or> (inst_name y \<noteq> ''ZTF'' \<and> inst_id x < inst_id y)"
  by (simp add: compareForDefault_def)

lemma default_head_ZTF:
  "\<exists>i\<in>set xs. inst_name i = ''ZTF'' \<Longrightarrow>
   \<exists>z. at0 (array_sort compareForDefault xs) = Some z \<and> inst_name z = ''ZTF''"
proof (induction xs rule: rev_induct)
  case Nil
  then show ?case by simp
next
  case (snoc x xs)
  show ?case
  proof (cases "at0 (array_sort compareForDefault xs)")
    case None
    then have "xs = []"
      using set_array_sort[of compareForDefault xs] by (simp add: at0_None_iff)
    with snoc.prems show ?thesis
      by (simp add: array_sort_def at0_def)
  next
    case (Some y)
    show ?thesis
    proof (cases "inst_name x = ''ZTF''")
      case True
      with at0_array_sort_snoc[OF Some, of x] show ?thesis
        by (simp add: compareForDefault_neg_iff)
    next
      case False
      with snoc.prems have "\<exists>i\<in>set xs. inst_name i = ''ZTF''" by auto
      with snoc.IH Some have "inst_name y = ''ZTF''" by auto
      with at0_array_sort_snoc[OF Some, of x] False show ?thesis
        by (simp add: compareForDefault_neg_iff)
    qed
  qed
qed

lemma default_head_min:
  "xs \<noteq> [] \<Longrightarrow> \<forall>i\<in>set xs. inst_name i \<noteq> ''ZTF'' \<Longrightarrow>
   map_option inst_id (at0 (array_sort compareForDefault xs)) = Some (Min (inst_id ` set xs))"
proof (induction xs rule: rev_induct)
  case Nil
  then show ?case by simp
next
  case (snoc x xs)
  show ?case
  proof (cases "xs = []")
    case True
    then show ?thesis
      by (simp add: array_sort_def at0_def)
  next
    case False
    with snoc
    have "map_option inst_id (at0 (array_sort compareForDefault xs)) = Some (Min (inst_id ` set xs))"
      by simp
    then obtain y where y: "at0 (array_sort compareForDefault xs) = Some y"
      and my: "inst_id y = Min (inst_id ` set xs)" by auto
    from y have "y \<in> set xs" by (rule at0_array_sort_mem)
    with snoc.prems have ny: "inst_name y \<noteq> ''ZTF''" and nx: "inst_name x \<noteq> ''ZTF''" by auto
    have fin: "finite (inst_id ` set xs)" "inst_id ` set xs \<noteq> {}" using False by auto
    have "Min (inst_id ` set (xs @ [x])) = min (inst_id x) (Min (inst_id ` set xs))"
      using fin by simp
    with at0_array_sort_snoc[OF y, of x] my ny nx show ?thesis
      by (auto simp add: compareForDefault_neg_iff min_def)
  qed
qed

text \<open>
  The same first element comes out of any arrangement of the list that agrees with the
  comparator (no element placed before one the comparator puts in front of it), so the
  choice of the sorting algorithm does not matter.
\<close>

lemma ordered_arrangement_head:
  assumes "set (y # rest) = set xs"
    and "sorted_wrt (\<lambda>a b. compareForDefault a b \<le> 0) (y # rest)"
  shows "(\<exists>i\<in>set xs. inst_name i = ''ZTF'') \<longrightarrow> inst_name y = ''ZTF''"
    and "(\<forall>i\<in>set xs. inst_name i \<noteq> ''ZTF'') \<longrightarrow> inst_id y = Min (inst_id ` set xs)"
proof -
  have le: "compareForDefault y r \<le> 0" if "r \<in> set rest" for r
    using assms(2) that by simp
  show "(\<exists>i\<in>set xs. inst_name i = ''ZTF'') \<longrightarrow> inst_name y = ''ZTF''"
  proof
    assume "\<exists>i\<in>set xs. inst_name i = ''ZTF''"
    then obtain z where z: "z \<in> set (y # rest)" "inst_name z = ''ZTF''"
      using assms(1) by auto
    show "inst_name y = ''ZTF''"
    proof (rule ccontr)
      assume ny: "inst_name y \<noteq> ''ZTF''"
      with z have "z \<in> set rest" by auto
      from le[OF this] ny z(2) show False
        by (simp add: compareForDefault_def)
    qed
  qed
  show "(\<forall>i\<in>set xs. inst_name i \<noteq> ''ZTF'') \<longrightarrow> inst_id y = Min (inst_id ` set xs)"
  proof
    assume no: "\<forall>i\<in>set xs. inst_name i \<noteq> ''ZTF''"
    have "inst_id y \<le> inst_id r" if "r \<in> set (y # rest)" for r
    proof (cases "r = y")
      case True
      then show ?thesis by simp
    next
      case False
      with that have r: "r \<in> set rest" by simp
      from no assms(1) that have "inst_name r \<noteq> ''ZTF''" "inst_name y \<noteq> ''ZTF''" by auto
      with le[OF r] show ?thesis
        by (simp add: compareForDefault_def split: if_splits)
    qed
    then have "\<forall>a\<in>inst_id ` set xs. inst_id y \<le> a"
      using assms(1) by auto
    moreover have "inst_id y \<in> inst_id ` set xs" using assms(1) by auto
    ultimately show "inst_id y = Min (inst_id ` set xs)"
      by (intro Min_eqI[symmetric]) auto
  qed
qed

text \<open>
  What \<open>setDefaults\<close> selects, once it is called with a non-empty instrument list: an
  instrument named ZTF when one is in the list, the lowest id when none is, the same for
  every list with the same instruments as long as the instruments named ZTF share one
  id, and the first localization of the list.
\<close>

lemma setDefaults_selects:
  assumes "instrumentList \<noteq> []"
  shows "((\<exists>i\<in>set instrumentList. inst_name i = ''ZTF'') \<longrightarrow>
            (\<exists>z\<in>set instrumentList. inst_name z = ''ZTF'' \<and>
               selectedInstrumentId (setDefaults instrumentList localizations) = Some (inst_id z)))
       \<and> ((\<forall>i\<in>set instrumentList. inst_name i \<noteq> ''ZTF'') \<longrightarrow>
            selectedInstrumentId (setDefaults instrumentList localizations) =
              Some (Min (inst_id ` set instrumentList)))
       \<and> (\<forall>other.
             set other = set instrumentList \<and>
             (\<forall>i\<in>set instrumentList. \<forall>j\<in>set instrumentList.
                inst_name i = ''ZTF'' \<and> inst_name j = ''ZTF'' \<longrightarrow> inst_id i = inst_id j) \<longrightarrow>
             selectedInstrumentId (setDefaults other localizations) =
               selectedInstrumentId (setDefaults instrumentList localizations))
       \<and> (\<forall>loc rest. localizations = loc # rest \<longrightarrow>
             selectedLocalizationId (setDefaults instrumentList localizations) = Some (loc_id loc) \<and>
             selectedLocalizationName (setDefaults instrumentList localizations) =
               Some (localization_name loc))"
proof -
  have sel: "selectedInstrumentId (setDefaults xs localizations) =
               map_option inst_id (at0 (array_sort compareForDefault xs))" for xs
    by (simp add: setDefaults_def Let_def)
  have ztf: "\<exists>z\<in>set xs. inst_name z = ''ZTF'' \<and>
               selectedInstrumentId (setDefaults xs localizations) = Some (inst_id z)"
    if "\<exists>i\<in>set xs. inst_name i = ''ZTF''" for xs
  proof -
    from default_head_ZTF[OF that] obtain z
      where z: "at0 (array_sort compareForDefault xs) = Some z" "inst_name z = ''ZTF''" by blast
    from z(1) have "z \<in> set xs" by (rule at0_array_sort_mem)
    with z show ?thesis by (auto simp add: sel)
  qed
  have low: "selectedInstrumentId (setDefaults xs localizations) = Some (Min (inst_id ` set xs))"
    if "xs \<noteq> []" "\<forall>i\<in>set xs. inst_name i \<noteq> ''ZTF''" for xs
    using default_head_min[OF that] by (simp add: sel)
  have perm: "selectedInstrumentId (setDefaults other localizations) =
                selectedInstrumentId (setDefaults instrumentList localizations)"
    if eq: "set other = set instrumentList"
      and uniq: "\<forall>i\<in>set instrumentList. \<forall>j\<in>set instrumentList.
                inst_name i = ''ZTF'' \<and> inst_name j = ''ZTF'' \<longrightarrow> inst_id i = inst_id j"
    for other
  proof (cases "\<exists>i\<in>set instrumentList. inst_name i = ''ZTF''")
    case True
    from ztf[OF True] obtain z where z: "z \<in> set instrumentList" "inst_name z = ''ZTF''"
      "selectedInstrumentId (setDefaults instrumentList localizations) = Some (inst_id z)" by blast
    from True eq have "\<exists>i\<in>set other. inst_name i = ''ZTF''" by simp
    from ztf[OF this] obtain z' where z': "z' \<in> set other" "inst_name z' = ''ZTF''"
      "selectedInstrumentId (setDefaults other localizations) = Some (inst_id z')" by blast
    from z'(1) eq have "z' \<in> set instrumentList" by simp
    with uniq z(1,2) z'(2) have "inst_id z' = inst_id z" by blast
    with z z' show ?thesis by simp
  next
    case False
    then have no: "\<forall>i\<in>set instrumentList. inst_name i \<noteq> ''ZTF''" by simp
    from eq assms have ne: "other \<noteq> []" by auto
    from no eq have no': "\<forall>i\<in>set other. inst_name i \<noteq> ''ZTF''" by simp
    from low[OF assms no] low[OF ne no'] eq show ?thesis by simp
  qed
  have loc: "selectedLocalizationId (setDefaults instrumentList (loc # rest)) = Some (loc_id loc) \<and>
             selectedLocalizationName (setDefaults instrumentList (loc # rest)) =
               Some (localization_name loc)" for loc rest
    by (simp add: setDefaults_def Let_def at0_def)
  show ?thesis
  proof (intro conjI)
    show "(\<exists>i\<in>set instrumentList. inst_name i = ''ZTF'') \<longrightarrow>
            (\<exists>z\<in>set instrumentList. inst_name z = ''ZTF'' \<and>
               selectedInstrumentId (setDefaults instrumentList localizations) = Some (inst_id z))"
      using ztf by (intro impI)
    show "(\<forall>i\<in>set instrumentList. inst_name i \<noteq> ''ZTF'') \<longrightarrow>
            selectedInstrumentId (setDefaults instrumentList localizations) =
              Some (Min (inst_id ` set instrumentList))"
      using low[OF assms] by (intro impI)
    show "\<forall>other.
             set other = set instrumentList \<and>
             (\<forall>i\<in>set instrumentList. \<forall>j\<in>set instrumentList.
                inst_name i = ''ZTF'' \<and> inst_name j = ''ZTF'' \<longrightarrow> inst_id i = inst_id j) \<longrightarrow>
             selectedInstrumentId (setDefaults other localizations) =
               selectedInstrumentId (setDefaults instrumentList localizations)"
      using perm by (intro allI impI) (elim conjE)
    show "\<forall>loc rest. localizations = loc # rest \<longrightarrow>
             selectedLocalizationId (setDefaults instrumentList localizations) = Some (loc_id loc) \<and>
             selectedLocalizationName (setDefaults instrumentList localizations) =
               Some (localization_name loc)"
      using loc by (intro allI impI) simp
  qed
qed

text \<open>The effect hands over to \<open>setDefaults\<close> when it runs and its four conditions hold.\<close>

lemma defaultsEffect_runs:
  assumes "depsChanged previous r"
    and "render_gcnEvent r = Some ev" and "ev_dateobs ev = Some (render_dateobs r)"
    and "render_dateobs r \<noteq> []"
    and "ev_localizations ev = Some localizations" and "localizations \<noteq> []"
    and "render_instrumentList r \<noteq> []"
  shows "defaultsEffect previous r sel = setDefaults (render_instrumentList r) localizations"
  using assms by (simp add: defaultsEffect_def defaultsEffect_body_def)

lemma depsChanged_instrumentList:
  "depsChanged previous (r\<lparr>render_instrumentList := other\<rparr>) = depsChanged previous r"
  by (simp add: depsChanged_def split: option.splits)

text \<open>
  Claim C3 (default instrument and localization), as the code has it. When the effect
  runs (after the first render, or after the store's event object changed) with the
  loaded event being the page's event, a non-empty instrument list and at least one
  localization: the selected instrument is one named ZTF when such an instrument is
  in the list; it has the lowest id of the list when none is; it is the same for every
  other list with the same instruments, as long as the instruments named ZTF share
  one id; and the selected localization is the first of the event's list, by id and by
  name. With an event that has no localization, with an empty instrument list, or
  when the effect does not run, the selection stays as it was.
\<close>

theorem defaultsEffect_selection:
  "(depsChanged previous r \<and> render_gcnEvent r = Some ev \<and>
    ev_dateobs ev = Some (render_dateobs r) \<and> render_dateobs r \<noteq> [] \<and>
    ev_localizations ev = Some (loc # rest) \<and> render_instrumentList r \<noteq> [] \<longrightarrow>
      ((\<exists>i\<in>set (render_instrumentList r). inst_name i = ''ZTF'') \<longrightarrow>
         (\<exists>z\<in>set (render_instrumentList r). inst_name z = ''ZTF'' \<and>
            selectedInstrumentId (defaultsEffect previous r sel) = Some (inst_id z)))
    \<and> ((\<forall>i\<in>set (render_instrumentList r). inst_name i \<noteq> ''ZTF'') \<longrightarrow>
         selectedInstrumentId (defaultsEffect previous r sel) =
           Some (Min (inst_id ` set (render_instrumentList r))))
    \<and> (\<forall>other.
          set other = set (render_instrumentList r) \<and>
          (\<forall>i\<in>set (render_instrumentList r). \<forall>j\<in>set (render_instrumentList r).
             inst_name i = ''ZTF'' \<and> inst_name j = ''ZTF'' \<longrightarrow> inst_id i = inst_id j) \<longrightarrow>
          selectedInstrumentId (defaultsEffect previous (r\<lparr>render_instrumentList := other\<rparr>) sel) =
            selectedInstrumentId (defaultsEffect previous r sel))
    \<and> selectedLocalizationId (defaultsEffect previous r sel) = Some (loc_id loc)
    \<and> selectedLocalizationName (defaultsEffect previous r sel) = Some (localization_name loc))
 \<and> (render_gcnEvent r = Some ev \<and> ev_localizations ev = Some [] \<longrightarrow>
       defaultsEffect previous r sel = sel)
 \<and> (render_instrumentList r = [] \<longrightarrow> defaultsEffect previous r sel = sel)
 \<and> (\<not> depsChanged previous r \<longrightarrow> defaultsEffect previous r sel = sel)"
proof (intro conjI)
  show "depsChanged previous r \<and> render_gcnEvent r = Some ev \<and>
    ev_dateobs ev = Some (render_dateobs r) \<and> render_dateobs r \<noteq> [] \<and>
    ev_localizations ev = Some (loc # rest) \<and> render_instrumentList r \<noteq> [] \<longrightarrow>
      ((\<exists>i\<in>set (render_instrumentList r). inst_name i = ''ZTF'') \<longrightarrow>
         (\<exists>z\<in>set (render_instrumentList r). inst_name z = ''ZTF'' \<and>
            selectedInstrumentId (defaultsEffect previous r sel) = Some (inst_id z)))
    \<and> ((\<forall>i\<in>set (render_instrumentList r). inst_name i \<noteq> ''ZTF'') \<longrightarrow>
         selectedInstrumentId (defaultsEffect previous r sel) =
           Some (Min (inst_id ` set (render_instrumentList r))))
    \<and> (\<forall>other.
          set other = set (render_instrumentList r) \<and>
          (\<forall>i\<in>set (render_instrumentList r). \<forall>j\<in>set (render_instrumentList r).
             inst_name i = ''ZTF'' \<and> inst_name j = ''ZTF'' \<longrightarrow> inst_id i = inst_id j) \<longrightarrow>
          selectedInstrumentId (defaultsEffect previous (r\<lparr>render_instrumentList := other\<rparr>) sel) =
            selectedInstrumentId (defaultsEffect previous r sel))
    \<and> selectedLocalizationId (defaultsEffect previous r sel) = Some (loc_id loc)
    \<and> selectedLocalizationName (defaultsEffect previous r sel) = Some (localization_name loc)"
  proof
    assume h: "depsChanged previous r \<and> render_gcnEvent r = Some ev \<and>
      ev_dateobs ev = Some (render_dateobs r) \<and> render_dateobs r \<noteq> [] \<and>
      ev_localizations ev = Some (loc # rest) \<and> render_instrumentList r \<noteq> []"
    then have ne: "render_instrumentList r \<noteq> []" by simp
    from h have run: "defaultsEffect previous r sel =
        setDefaults (render_instrumentList r) (loc # rest)"
      by (simp add: defaultsEffect_runs[of previous r ev])
    have run': "defaultsEffect previous (r\<lparr>render_instrumentList := other\<rparr>) sel =
        setDefaults other (loc # rest)"
      if "set other = set (render_instrumentList r)" for other
    proof -
      from that ne have "other \<noteq> []" by auto
      with h defaultsEffect_runs
          [of previous "r\<lparr>render_instrumentList := other\<rparr>" ev "loc # rest" sel]
      show ?thesis
        by (simp add: depsChanged_instrumentList)
    qed
    note inner = setDefaults_selects[OF ne, of "loc # rest"]
    from inner have a: "(\<exists>i\<in>set (render_instrumentList r). inst_name i = ''ZTF'') \<longrightarrow>
         (\<exists>z\<in>set (render_instrumentList r). inst_name z = ''ZTF'' \<and>
            selectedInstrumentId (defaultsEffect previous r sel) = Some (inst_id z))"
      unfolding run by (rule conjunct1)
    from inner have b: "(\<forall>i\<in>set (render_instrumentList r). inst_name i \<noteq> ''ZTF'') \<longrightarrow>
         selectedInstrumentId (defaultsEffect previous r sel) =
           Some (Min (inst_id ` set (render_instrumentList r)))"
      unfolding run by (rule conjunct2[THEN conjunct1])
    from inner have c0: "\<forall>other.
          set other = set (render_instrumentList r) \<and>
          (\<forall>i\<in>set (render_instrumentList r). \<forall>j\<in>set (render_instrumentList r).
             inst_name i = ''ZTF'' \<and> inst_name j = ''ZTF'' \<longrightarrow> inst_id i = inst_id j) \<longrightarrow>
          selectedInstrumentId (setDefaults other (loc # rest)) =
            selectedInstrumentId (setDefaults (render_instrumentList r) (loc # rest))"
      by (rule conjunct2[THEN conjunct2, THEN conjunct1])
    have c: "\<forall>other.
          set other = set (render_instrumentList r) \<and>
          (\<forall>i\<in>set (render_instrumentList r). \<forall>j\<in>set (render_instrumentList r).
             inst_name i = ''ZTF'' \<and> inst_name j = ''ZTF'' \<longrightarrow> inst_id i = inst_id j) \<longrightarrow>
          selectedInstrumentId (defaultsEffect previous (r\<lparr>render_instrumentList := other\<rparr>) sel) =
            selectedInstrumentId (defaultsEffect previous r sel)"
    proof (intro allI impI)
      fix other
      assume o: "set other = set (render_instrumentList r) \<and>
          (\<forall>i\<in>set (render_instrumentList r). \<forall>j\<in>set (render_instrumentList r).
             inst_name i = ''ZTF'' \<and> inst_name j = ''ZTF'' \<longrightarrow> inst_id i = inst_id j)"
      then have "set other = set (render_instrumentList r)" by (rule conjunct1)
      from run'[OF this] c0[rule_format, OF o] run
      show "selectedInstrumentId (defaultsEffect previous (r\<lparr>render_instrumentList := other\<rparr>) sel) =
            selectedInstrumentId (defaultsEffect previous r sel)"
        by simp
    qed
    have d: "selectedLocalizationId (defaultsEffect previous r sel) = Some (loc_id loc)
           \<and> selectedLocalizationName (defaultsEffect previous r sel) = Some (localization_name loc)"
      unfolding run by (simp add: setDefaults_def Let_def at0_def)
    from a b c d
    show "((\<exists>i\<in>set (render_instrumentList r). inst_name i = ''ZTF'') \<longrightarrow>
         (\<exists>z\<in>set (render_instrumentList r). inst_name z = ''ZTF'' \<and>
            selectedInstrumentId (defaultsEffect previous r sel) = Some (inst_id z)))
    \<and> ((\<forall>i\<in>set (render_instrumentList r). inst_name i \<noteq> ''ZTF'') \<longrightarrow>
         selectedInstrumentId (defaultsEffect previous r sel) =
           Some (Min (inst_id ` set (render_instrumentList r))))
    \<and> (\<forall>other.
          set other = set (render_instrumentList r) \<and>
          (\<forall>i\<in>set (render_instrumentList r). \<forall>j\<in>set (render_instrumentList r).
             inst_name i = ''ZTF'' \<and> inst_name j = ''ZTF'' \<longrightarrow> inst_id i = inst_id j) \<longrightarrow>
          selectedInstrumentId (defaultsEffect previous (r\<lparr>render_instrumentList := other\<rparr>) sel) =
            selectedInstrumentId (defaultsEffect previous r sel))
    \<and> selectedLocalizationId (defaultsEffect previous r sel) = Some (loc_id loc)
    \<and> selectedLocalizationName (defaultsEffect previous r sel) = Some (localization_name loc)"
      by (intro conjI) (rule a, rule b, rule c, rule d[THEN conjunct1], rule d[THEN conjunct2])
  qed
  show "render_gcnEvent r = Some ev \<and> ev_localizations ev = Some [] \<longrightarrow>
       defaultsEffect previous r sel = sel"
    by (simp add: defaultsEffect_def defaultsEffect_body_def)
  show "render_instrumentList r = [] \<longrightarrow> defaultsEffect previous r sel = sel"
    by (simp add: defaultsEffect_def defaultsEffect_body_def split: option.splits)
  show "\<not> depsChanged previous r \<longrightarrow> defaultsEffect previous r sel = sel"
    by (simp add: defaultsEffect_def)
qed

theorem defaultsEffect_selection_witness:
  "depsChanged None example_render
   \<and> render_instrumentList example_render \<noteq> []
   \<and> selectedInstrumentId (defaultsEffect None example_render selection_init) = Some 7
   \<and> selectedInstrumentId
       (defaultsEffect None
          (example_render\<lparr>render_instrumentList := rev example_instruments\<rparr>) selection_init) = Some 7
   \<and> selectedInstrumentId
       (defaultsEffect None
          (example_render\<lparr>render_instrumentList := example_instruments_without_ZTF\<rparr>)
          selection_init) = Some 1
   \<and> selectedLocalizationId (defaultsEffect None example_render selection_init) = Some 11
   \<and> selectedLocalizationName (defaultsEffect None example_render selection_init) =
       Some ''bayestar.fits''
   \<and> defaultsEffect None example_render_without_localizations selection_init = selection_init
   \<and> defaultsEffect (Some example_render_before_instruments) example_render selection_init =
       selection_init"
proof -
  let ?loc = "\<lparr>loc_id = 11, localization_name = ''bayestar.fits'',
                created_at = ''2023-04-03T10:00:00''\<rparr>"
  let ?rest = "[\<lparr>loc_id = 5, localization_name = ''LALInference.fits'',
                  created_at = ''2023-04-04T08:30:00''\<rparr>]"
  have dc: "depsChanged None example_render" by (simp add: depsChanged_def)
  have ne: "render_instrumentList example_render \<noteq> []"
    by (simp add: example_render_def example_instruments_def)
  have g: "depsChanged None example_render \<and> render_gcnEvent example_render = Some example_event \<and>
      ev_dateobs example_event = Some (render_dateobs example_render) \<and>
      render_dateobs example_render \<noteq> [] \<and>
      ev_localizations example_event = Some (?loc # ?rest) \<and>
      render_instrumentList example_render \<noteq> []"
    by (simp add: depsChanged_def example_render_def example_event_def
        example_localizations_def example_instruments_def)
  note main = defaultsEffect_selection
      [of None example_render example_event ?loc ?rest selection_init,
       THEN conjunct1, rule_format, OF g]
  have il: "render_instrumentList example_render = example_instruments"
    by (simp add: example_render_def)
  have "\<exists>i\<in>set (render_instrumentList example_render). inst_name i = ''ZTF''"
    by (simp add: il example_instruments_def)
  with main obtain z where "z \<in> set example_instruments" "inst_name z = ''ZTF''"
    "selectedInstrumentId (defaultsEffect None example_render selection_init) = Some (inst_id z)"
    unfolding il by blast
  then have a: "selectedInstrumentId (defaultsEffect None example_render selection_init) = Some 7"
    by (auto simp add: example_instruments_def)
  have "set (rev example_instruments) = set (render_instrumentList example_render)"
    by (simp add: il)
  moreover
  have "\<forall>i\<in>set (render_instrumentList example_render).
        \<forall>j\<in>set (render_instrumentList example_render).
      inst_name i = ''ZTF'' \<and> inst_name j = ''ZTF'' \<longrightarrow> inst_id i = inst_id j"
    by (simp add: il example_instruments_def)
  ultimately
  have "selectedInstrumentId
          (defaultsEffect None
             (example_render\<lparr>render_instrumentList := rev example_instruments\<rparr>) selection_init) =
        selectedInstrumentId (defaultsEffect None example_render selection_init)"
    using main by blast
  with a have b: "selectedInstrumentId
          (defaultsEffect None
             (example_render\<lparr>render_instrumentList := rev example_instruments\<rparr>) selection_init) =
        Some 7"
    by simp
  from main have c: "selectedLocalizationId (defaultsEffect None example_render selection_init) = Some 11
      \<and> selectedLocalizationName (defaultsEffect None example_render selection_init) =
          Some ''bayestar.fits''"
    by simp
  let ?r' = "example_render\<lparr>render_instrumentList := example_instruments_without_ZTF\<rparr>"
  have g': "depsChanged None ?r' \<and> render_gcnEvent ?r' = Some example_event \<and>
      ev_dateobs example_event = Some (render_dateobs ?r') \<and>
      render_dateobs ?r' \<noteq> [] \<and>
      ev_localizations example_event = Some (?loc # ?rest) \<and>
      render_instrumentList ?r' \<noteq> []"
    by (simp add: depsChanged_def example_render_def example_event_def
        example_localizations_def example_instruments_without_ZTF_def)
  have "\<forall>i\<in>set (render_instrumentList ?r'). inst_name i \<noteq> ''ZTF''"
    by (simp add: example_instruments_without_ZTF_def)
  with defaultsEffect_selection
      [of None ?r' example_event ?loc ?rest selection_init, THEN conjunct1, rule_format, OF g']
  have "selectedInstrumentId (defaultsEffect None ?r' selection_init) =
          Some (Min (inst_id ` set (render_instrumentList ?r')))"
    by blast
  then have d: "selectedInstrumentId (defaultsEffect None ?r' selection_init) = Some 1"
    by (simp add: example_instruments_without_ZTF_def)
  have e: "defaultsEffect None example_render_without_localizations selection_init = selection_init"
    using defaultsEffect_selection
      [of None example_render_without_localizations example_event_without_localizations
          ?loc ?rest selection_init]
    by (simp add: example_render_without_localizations_def
        example_event_without_localizations_def)
  have f: "defaultsEffect (Some example_render_before_instruments) example_render selection_init =
       selection_init"
    using defaultsEffect_selection
      [of "Some example_render_before_instruments" example_render example_event
          ?loc ?rest selection_init]
    by (simp add: depsChanged_def example_render_def example_render_before_instruments_def)
  from dc ne a b c d e f show ?thesis by simp
qed

text \<open>
  The claim as it is written fails: the instrument list is not empty and has a ZTF in
  it, yet no instrument is selected when the event has no localization, and none is
  selected when the instruments arrive in a render after the event's (the event object
  is the same in both renders, so the effect does not run again).
\<close>

theorem defaultsEffect_selects_nothing:
  "render_instrumentList example_render_without_localizations \<noteq> []
   \<and> selectedInstrumentId
       (defaultsEffect None example_render_without_localizations selection_init) = None
   \<and> render_instrumentList example_render \<noteq> []
   \<and> selectedInstrumentId
       (runDefaultsEffect None [example_render_before_instruments, example_render]
          selection_init) = None"
  by (simp add: defaultsEffect_def defaultsEffect_body_def depsChanged_def selection_init_def
      example_render_def example_render_before_instruments_def
      example_render_without_localizations_def example_event_without_localizations_def
      example_event_def example_localizations_def example_instruments_def)

section \<open>Properties of the sky-map overlay fetch\<close>

lemma dom_foldl_upd:
  "dom (foldl (\<lambda>m x. m(key x \<mapsto> x)) m0 xs) = dom m0 \<union> key ` set xs"
  by (induction xs arbitrary: m0) auto

lemma foldl_upd_Some:
  "foldl (\<lambda>m x. m(key x \<mapsto> x)) m0 xs k = Some v \<Longrightarrow>
   (v \<in> set xs \<and> key v = k) \<or> m0 k = Some v"
proof (induction xs arbitrary: m0)
  case Nil
  then show ?case by simp
next
  case (Cons x xs)
  from Cons.IH[of "m0(key x \<mapsto> x)"] Cons.prems show ?case
    by (auto split: if_splits)
qed

lemma dom_instLookUp: "dom (instLookUp il) = inst_id ` set il"
  by (simp add: instLookUp_def dom_foldl_upd sortedInstrumentList_def set_array_sort)

lemma dom_locLookUp: "dom (locLookUp ev) = loc_id ` set (eventLocalizations ev)"
  by (simp add: locLookUp_def eventLocalizations_def dom_foldl_upd split: option.splits)

lemma instLookUp_Some: "instLookUp il i = Some v \<Longrightarrow> inst_id v = i"
  unfolding instLookUp_def by (drule foldl_upd_Some) simp

lemma locLookUp_Some:
  "locLookUp ev l = Some loc \<Longrightarrow> loc \<in> set (eventLocalizations ev) \<and> loc_id loc = l"
  unfolding locLookUp_def eventLocalizations_def
  by (auto split: option.splits dest: foldl_upd_Some)

lemma lookUp_neq_None: "lookUp table key \<noteq> None \<longleftrightarrow> (\<exists>k. key = Some k \<and> k \<in> dom table)"
  by (cases key) (auto simp add: lookUp_def)

text \<open>
  Claim C9 (the overlay fetch needs both ids resolved). The effect dispatches the fetch
  if and only if the selected instrument id is a key of \<open>instLookUp\<close> and the selected
  localization id is a key of \<open>locLookUp\<close>; a dispatched fetch carries the selected
  instrument id and the localization of the event that has the selected id. The keys of
  the two tables are the ids of the loaded instruments and of the event's localizations.
\<close>

theorem fetchSkymap_dispatched_iff_resolved:
  "(fetchSkymapInstrumentEffect il ev si sl \<noteq> None \<longleftrightarrow>
      (\<exists>i. si = Some i \<and> i \<in> dom (instLookUp il)) \<and>
      (\<exists>l. sl = Some l \<and> l \<in> dom (locLookUp ev)))
   \<and> (\<forall>a b. fetchSkymapInstrumentEffect il ev si sl = Some (FetchInstrumentSkymap a b) \<longrightarrow>
         a = si \<and> (\<exists>loc\<in>set (eventLocalizations ev). b = Some loc \<and> sl = Some (loc_id loc)))
   \<and> dom (instLookUp il) = inst_id ` set il
   \<and> dom (locLookUp ev) = loc_id ` set (eventLocalizations ev)"
proof (intro conjI allI impI)
  show "fetchSkymapInstrumentEffect il ev si sl \<noteq> None \<longleftrightarrow>
      (\<exists>i. si = Some i \<and> i \<in> dom (instLookUp il)) \<and>
      (\<exists>l. sl = Some l \<and> l \<in> dom (locLookUp ev))"
    by (simp add: fetchSkymapInstrumentEffect_def lookUp_neq_None del: not_None_eq)
next
  fix a b
  assume eq: "fetchSkymapInstrumentEffect il ev si sl = Some (FetchInstrumentSkymap a b)"
  then have ne: "lookUp (instLookUp il) si \<noteq> None" "lookUp (locLookUp ev) sl \<noteq> None"
    by (simp_all add: fetchSkymapInstrumentEffect_def del: not_None_eq split: if_splits)
  with eq have a: "a = map_option inst_id (lookUp (instLookUp il) si)"
    and b: "b = lookUp (locLookUp ev) sl"
    by (simp_all add: fetchSkymapInstrumentEffect_def del: not_None_eq)
  from ne(1) obtain i v where i: "si = Some i" "instLookUp il i = Some v"
    by (cases si) (auto simp add: lookUp_def)
  from ne(2) obtain l loc where l: "sl = Some l" "locLookUp ev l = Some loc"
    by (cases sl) (auto simp add: lookUp_def)
  from a i instLookUp_Some[OF i(2)] show "a = si" by (simp add: lookUp_def)
  from b l locLookUp_Some[OF l(2)]
  show "\<exists>loc\<in>set (eventLocalizations ev). b = Some loc \<and> sl = Some (loc_id loc)"
    by (auto simp add: lookUp_def)
next
  show "dom (instLookUp il) = inst_id ` set il" by (rule dom_instLookUp)
  show "dom (locLookUp ev) = loc_id ` set (eventLocalizations ev)" by (rule dom_locLookUp)
qed

theorem fetchSkymap_dispatched_iff_resolved_witness:
  "fetchSkymapInstrumentEffect example_instruments (Some example_event) (Some 7) (Some 5) \<noteq> None
   \<and> fetchSkymapInstrumentEffect example_instruments (Some example_event) (Some 99) (Some 5) = None
   \<and> fetchSkymapInstrumentEffect example_instruments (Some example_event) (Some 7) (Some 6) = None
   \<and> fetchSkymapInstrumentEffect example_instruments (Some example_event) None (Some 5) = None"
proof -
  note resolved = fetchSkymap_dispatched_iff_resolved[of example_instruments "Some example_event"]
  have ids: "dom (instLookUp example_instruments) = {3, 7, 1}"
    using resolved[of None None] by (simp add: example_instruments_def)
  have locs: "dom (locLookUp (Some example_event)) = {11, 5}"
    using resolved[of None None]
    by (simp add: eventLocalizations_def example_event_def example_localizations_def)
  have "fetchSkymapInstrumentEffect example_instruments (Some example_event) (Some 7) (Some 5) \<noteq> None"
    using resolved[of "Some 7" "Some 5", THEN conjunct1] by (simp add: ids locs del: not_None_eq)
  moreover
  have "fetchSkymapInstrumentEffect example_instruments (Some example_event) (Some 99) (Some 5) = None"
    using resolved[of "Some 99" "Some 5", THEN conjunct1] by (simp add: ids locs del: not_None_eq)
  moreover
  have "fetchSkymapInstrumentEffect example_instruments (Some example_event) (Some 7) (Some 6) = None"
    using resolved[of "Some 7" "Some 6", THEN conjunct1] by (simp add: ids locs del: not_None_eq)
  moreover
  have "fetchSkymapInstrumentEffect example_instruments (Some example_event) None (Some 5) = None"
    using resolved[of None "Some 5", THEN conjunct1] by (simp del: not_None_eq)
  ultimately show ?thesis by simp
qed

section \<open>Properties of the results tabs\<close>

text \<open>
  Claim C4 (three states of every results pane), as the code has it. The galaxies and
  observations panes show the fetching line when the collection is missing, the text
  None when it is empty and their table when it has rows. The sources pane does the
  same for a missing and for an empty collection, and shows its table for a collection
  with rows when the localization name is a non-empty string.
\<close>

theorem results_tabs_states:
  "(Option.bind g galaxies = None \<longrightarrow> galaxiesTab g = Typography ''Fetching galaxies...'')
 \<and> (Option.bind g galaxies = Some [] \<longrightarrow> galaxiesTab g = Typography ''None'')
 \<and> (\<forall>x xs. Option.bind g galaxies = Some (x # xs) \<longrightarrow>
       galaxiesTab g = GalaxyTable (x # xs) (Option.bind g galaxies_totalMatches))
 \<and> (Option.bind ob observations = None \<longrightarrow>
       observationsTab ob = Typography ''Fetching observations...'')
 \<and> (Option.bind ob observations = Some [] \<longrightarrow> observationsTab ob = Typography ''None'')
 \<and> (\<forall>x xs. Option.bind ob observations = Some (x # xs) \<longrightarrow>
       observationsTab ob =
         ExecutedObservationsTable (x # xs) (Option.bind ob observations_totalMatches))
 \<and> (Option.bind src sources = None \<longrightarrow> sourcesTab src name = Typography ''Fetching sources...'')
 \<and> (Option.bind src sources = Some [] \<longrightarrow> sourcesTab src name = Typography ''None'')
 \<and> (\<forall>x xs c cs. Option.bind src sources = Some (x # xs) \<and> name = Some (c # cs) \<longrightarrow>
       sourcesTab src name = SourceTable (Some (x # xs)))"
  by (auto simp add: galaxiesTab_def observationsTab_def sourcesTab_def GcnEventSourcesPage_def
      Option.bind_eq_Some_conv)

theorem results_tabs_states_witness:
  "galaxiesTab (None :: nat gcnEventGalaxies option) = Typography ''Fetching galaxies...''
   \<and> galaxiesTab (Some \<lparr>galaxies = Some ([] :: nat list), galaxies_totalMatches = Some 0\<rparr>)
       = Typography ''None''
   \<and> galaxiesTab (Some \<lparr>galaxies = Some [3 :: nat, 4], galaxies_totalMatches = Some 2\<rparr>)
       = GalaxyTable [3, 4] (Some 2)
   \<and> observationsTab (Some \<lparr>observations = Some [8 :: nat], observations_totalMatches = Some 1\<rparr>)
       = ExecutedObservationsTable [8] (Some 1)
   \<and> sourcesTab (Some \<lparr>sources = Some [5 :: nat]\<rparr>) (Some ''bayestar.fits'')
       = SourceTable (Some [5])"
  using results_tabs_states[of "None :: nat gcnEventGalaxies option"
      "None :: nat gcnEventObservations option" "None :: nat gcnEventSources option" None]
    results_tabs_states
      [of "Some \<lparr>galaxies = Some ([] :: nat list), galaxies_totalMatches = Some 0\<rparr>"
        "None :: nat gcnEventObservations option" "None :: nat gcnEventSources option" None]
    results_tabs_states
      [of "Some \<lparr>galaxies = Some [3 :: nat, 4], galaxies_totalMatches = Some 2\<rparr>"
        "Some \<lparr>observations = Some [8 :: nat], observations_totalMatches = Some 1\<rparr>"
        "Some \<lparr>sources = Some [5 :: nat]\<rparr>" "Some ''bayestar.fits''"]
  by simp

text \<open>
  The claim as it is written fails for the sources pane: with one source in the
  collection and no localization name the pane shows nothing, which is none of the
  three states.
\<close>

theorem sources_tab_fourth_state:
  "sourcesTab (Some \<lparr>sources = Some [1 :: nat]\<rparr>) None = Nothing
   \<and> sourcesTab (Some \<lparr>sources = Some [1 :: nat]\<rparr>) None \<noteq> SourceTable (Some [1])
   \<and> sourcesTab (Some \<lparr>sources = Some [1 :: nat]\<rparr>) None \<noteq> Typography ''None''
   \<and> sourcesTab (Some \<lparr>sources = Some [1 :: nat]\<rparr>) None \<noteq> Typography ''Fetching sources...''"
  by (simp add: sourcesTab_def)

text \<open>
  Claim C8 (the sources table needs a localization name). A collection with rows and a
  localization name that is missing or empty gives a pane that shows nothing; and
  whenever the pane shows the source table, the name is a non-empty string and the
  rows are those of a collection with rows.
\<close>

theorem sources_tab_needs_localization_name:
  "(\<forall>x xs. Option.bind src sources = Some (x # xs) \<and> name \<in> {None, Some []} \<longrightarrow>
       sourcesTab src name = Nothing)
 \<and> (\<forall>rows. sourcesTab src name = SourceTable rows \<longrightarrow>
       name \<notin> {None, Some []} \<and> rows = Option.bind src sources \<and> rows \<notin> {None, Some []})"
proof -
  have absent: "sourcesTab src name = Nothing"
    if "Option.bind src sources = Some (x # xs) \<and> name \<in> {None, Some []}" for x xs
    using that by (auto simp add: sourcesTab_def)
  have table: "name \<notin> {None, Some []} \<and> rows = Option.bind src sources \<and> rows \<notin> {None, Some []}"
    if t: "sourcesTab src name = SourceTable rows" for rows
  proof (cases "Option.bind src sources")
    case None
    with t show ?thesis by (simp add: sourcesTab_def)
  next
    case (Some ys)
    then obtain r where r: "src = Some r" "sources r = Some ys"
      by (cases src) simp_all
    have "sourcesTab src name =
            (if ys = [] then Typography ''None''
             else case name of None \<Rightarrow> Nothing
                  | Some n \<Rightarrow> if n = [] then Nothing else SourceTable (Some ys))"
      by (simp add: r sourcesTab_def GcnEventSourcesPage_def split: option.splits)
    with t have "ys \<noteq> []" and "name \<notin> {None, Some []}" and "rows = Some ys"
      by (auto split: if_splits option.splits)
    with Some show ?thesis by simp
  qed
  from absent table show ?thesis by blast
qed

theorem sources_tab_needs_localization_name_witness:
  "sourcesTab (Some \<lparr>sources = Some [''ZTF23aaaaaaa'', ''ZTF23aaaaaab'']\<rparr>) (Some []) = Nothing
   \<and> sourcesTab (Some \<lparr>sources = Some [''ZTF23aaaaaaa'', ''ZTF23aaaaaab'']\<rparr>) None = Nothing
   \<and> sourcesTab (Some \<lparr>sources = Some [''ZTF23aaaaaaa'', ''ZTF23aaaaaab'']\<rparr>)
       (Some ''bayestar.fits'') = SourceTable (Some [''ZTF23aaaaaaa'', ''ZTF23aaaaaab''])"
proof -
  have "sourcesTab (Some \<lparr>sources = Some [''ZTF23aaaaaaa'', ''ZTF23aaaaaab'']\<rparr>) (Some []) = Nothing"
    using sources_tab_needs_localization_name
      [of "Some \<lparr>sources = Some [''ZTF23aaaaaaa'', ''ZTF23aaaaaab'']\<rparr>" "Some []"]
    by simp
  moreover
  have "sourcesTab (Some \<lparr>sources = Some [''ZTF23aaaaaaa'', ''ZTF23aaaaaab'']\<rparr>) None = Nothing"
    using sources_tab_needs_localization_name
      [of "Some \<lparr>sources = Some [''ZTF23aaaaaaa'', ''ZTF23aaaaaab'']\<rparr>" None]
    by simp
  moreover
  have "sourcesTab (Some \<lparr>sources = Some [''ZTF23aaaaaaa'', ''ZTF23aaaaaab'']\<rparr>)
      (Some ''bayestar.fits'') = SourceTable (Some [''ZTF23aaaaaaa'', ''ZTF23aaaaaab''])"
    by (simp add: sourcesTab_def GcnEventSourcesPage_def)
  ultimately show ?thesis by simp
qed

section \<open>Properties of the Treasure Map controls\<close>

text \<open>
  Whenever \<open>isSubmittingTreasureMap\<close> holds an id, a submission for that id is in flight:
  the cell is set to an id only when a submission for it starts, and every submission
  that resolves clears the cell.
\<close>

lemma tm_step_flag_in_flight:
  assumes "tm_step e s = Some s'"
    and "\<forall>x. isSubmittingTreasureMap s = Some x \<longrightarrow> Some x \<in> set (submissionsInFlight s)"
  shows "\<forall>x. isSubmittingTreasureMap s' = Some x \<longrightarrow> Some x \<in> set (submissionsInFlight s')"
  using assms
  by (cases e)
     (auto simp add: tm_step_def handleSubmitTreasureMap_start_def
        handleSubmitTreasureMap_resume_def split: if_splits)

lemma tm_run_flag_in_flight:
  "tm_run es s = Some s' \<Longrightarrow>
   \<forall>x. isSubmittingTreasureMap s = Some x \<longrightarrow> Some x \<in> set (submissionsInFlight s) \<Longrightarrow>
   \<forall>x. isSubmittingTreasureMap s' = Some x \<longrightarrow> Some x \<in> set (submissionsInFlight s')"
proof (induction es arbitrary: s)
  case Nil
  then show ?case by simp
next
  case (Cons e es)
  from Cons.prems(1) obtain s1 where s1: "tm_step e s = Some s1" "tm_run es s1 = Some s'"
    by (auto split: option.splits)
  from tm_step_flag_in_flight[OF s1(1) Cons.prems(2)] Cons.IH[OF s1(2)] show ?case by blast
qed

text \<open>
  Claim C6 (a submission for one instrument does not disable another). In every state
  the controls can reach: with instrument A selected and the cell holding a different
  id B, the button is shown; with A selected and no submission for A in flight, the
  button is shown, whatever else is in flight; and when the progress indicator stands
  in place of the button for the selected A, the cell holds A and a submission for A
  is in flight.
\<close>

theorem treasureMap_button_independent:
  assumes "tm_run es tm_init = Some s"
  shows "(\<forall>A B. tm_selectedInstrumentId s = Some A \<and> isSubmittingTreasureMap s = Some B \<and> A \<noteq> B \<longrightarrow>
            submitControl s = SendToTreasureMapButton)
       \<and> (\<forall>A. tm_selectedInstrumentId s = Some A \<and> Some A \<notin> set (submissionsInFlight s) \<longrightarrow>
            submitControl s = SendToTreasureMapButton)
       \<and> (\<forall>A. tm_selectedInstrumentId s = Some A \<and> submitControl s = CircularProgress \<longrightarrow>
            isSubmittingTreasureMap s = Some A \<and> Some A \<in> set (submissionsInFlight s))"
proof -
  have "\<forall>x. isSubmittingTreasureMap tm_init = Some x \<longrightarrow> Some x \<in> set (submissionsInFlight tm_init)"
    by (simp add: tm_init_def)
  from tm_run_flag_in_flight[OF assms this]
  have "\<forall>x. isSubmittingTreasureMap s = Some x \<longrightarrow> Some x \<in> set (submissionsInFlight s)" .
  then show ?thesis
    by (auto simp add: submitControl_def split: if_splits)
qed

theorem treasureMap_button_independent_witness:
  "tm_run [SelectInstrument 2, ClickSubmit, SelectInstrument 1] tm_init =
     Some \<lparr>tm_selectedInstrumentId = Some 1, isSubmittingTreasureMap = Some 2,
           submissionsInFlight = [Some 2]\<rparr>
   \<and> submitControl \<lparr>tm_selectedInstrumentId = Some 1, isSubmittingTreasureMap = Some 2,
           submissionsInFlight = [Some 2]\<rparr> = SendToTreasureMapButton"
proof -
  have run: "tm_run [SelectInstrument 2, ClickSubmit, SelectInstrument 1] tm_init =
     Some \<lparr>tm_selectedInstrumentId = Some 1, isSubmittingTreasureMap = Some 2,
           submissionsInFlight = [Some 2]\<rparr>"
    by (simp add: tm_step_def tm_init_def submitControl_def handleSubmitTreasureMap_start_def)
  from treasureMap_button_independent[OF run] run show ?thesis by simp
qed

section \<open>Properties of the API trigger selector\<close>

text \<open>
  Claim C5 (choosing Clear Selection), as the code has it. Choosing the entry with id
  -1, the first of the menu, sets the form's event and localization to the empty
  string and \<open>selectedGcnEventId\<close> to -1. The trigger name, the trigger list and the
  allocation stay as they were.
\<close>

theorem clear_selection_resets_event_and_localization:
  "formValues (handleGcnEventChange events (- 1) s) ''gcneventid'' = Some EmptyString
 \<and> formValues (handleGcnEventChange events (- 1) s) ''localizationid'' = Some EmptyString
 \<and> selectedGcnEventId (handleGcnEventChange events (- 1) s) = Some (- 1)
 \<and> selectedTriggerName (handleGcnEventChange events (- 1) s) = selectedTriggerName s
 \<and> triggerList (handleGcnEventChange events (- 1) s) = triggerList s
 \<and> selectedAllocationId (handleGcnEventChange events (- 1) s) = selectedAllocationId s
 \<and> fst (gcnEventsSelect events ! 0) = - 1"
  by (simp add: handleGcnEventChange_def gcnEventsSelect_def)

text \<open>
  The claim as it is written fails for the trigger name: after a catalog with two names
  was loaded, choosing Clear Selection leaves the first of them selected.
\<close>

theorem clear_selection_keeps_trigger_name:
  "selectedTriggerName
     (handleGcnEventChange [] (- 1) (setTriggers example_triggers_response trigger_widget_init))
     = ''S230401a''
   \<and> selectedTriggerName
     (handleGcnEventChange [] (- 1) (setTriggers example_triggers_response trigger_widget_init))
     \<noteq> []"
  by (simp add: handleGcnEventChange_def setTriggers_def trigger_widget_init_def
      example_triggers_response_def)

text \<open>
  The selected trigger name is in the trigger list at the start, after every response
  to the catalog request, after the user picks a name from the menu (the menu offers
  the names of the list), and after a change of the event selector.
\<close>

lemma trigger_selection_in_list:
  shows "selectedTriggerName trigger_widget_init \<in> set (triggerList trigger_widget_init)"
    and "selectedTriggerName (setTriggers response s) \<in> set (triggerList (setTriggers response s))"
    and "v \<in> set (triggerList s) \<Longrightarrow>
         selectedTriggerName (handleSelectedTriggerNameChange v s)
           \<in> set (triggerList (handleSelectedTriggerNameChange v s))"
    and "selectedTriggerName s \<in> set (triggerList s) \<Longrightarrow>
         selectedTriggerName (handleGcnEventChange events e s)
           \<in> set (triggerList (handleGcnEventChange events e s))"
  by (auto simp add: trigger_widget_init_def setTriggers_def handleSelectedTriggerNameChange_def
      handleGcnEventChange_def split: option.splits list.splits)

text \<open>
  Claim C10 (the selected trigger name is in the trigger list). When the catalog is
  fetched (a truthy allocation id, a non-empty allocation list), the selected name
  afterwards is an element of the list; a response with names makes them the list and
  selects the first; a response with no names, or none at all, makes the list the
  single entry None and selects it.
\<close>

theorem getTriggers_selected_in_list:
  assumes "selectedAllocationId s = Some a" and "a \<noteq> 0"
    and "allocationListApiObsplan = Some allocations" and "allocations \<noteq> []"
  shows "selectedTriggerName (getTriggers request allocationListApiObsplan s)
           \<in> set (triggerList (getTriggers request allocationListApiObsplan s))
       \<and> (\<forall>first rest.
             Option.bind (Option.bind (request a) response_data) trigger_names = Some (first # rest) \<longrightarrow>
             triggerList (getTriggers request allocationListApiObsplan s) = first # rest \<and>
             selectedTriggerName (getTriggers request allocationListApiObsplan s) = first)
       \<and> (Option.bind (Option.bind (request a) response_data) trigger_names \<in> {None, Some []} \<longrightarrow>
             triggerList (getTriggers request allocationListApiObsplan s) = [''None''] \<and>
             selectedTriggerName (getTriggers request allocationListApiObsplan s) = ''None'')"
proof -
  from assms have run: "getTriggers request allocationListApiObsplan s = setTriggers (request a) s"
    by (simp add: getTriggers_def)
  show ?thesis
    unfolding run
    by (cases "Option.bind (Option.bind (request a) response_data) trigger_names")
       (auto simp add: setTriggers_def split: list.splits)
qed

theorem getTriggers_selected_in_list_witness:
  "triggerList
     (getTriggers (\<lambda>allocation_id. example_triggers_response) (Some [4 :: int])
        (trigger_widget_init\<lparr>selectedAllocationId := Some 4\<rparr>)) = [''S230401a'', ''S230402b'']
   \<and> selectedTriggerName
     (getTriggers (\<lambda>allocation_id. example_triggers_response) (Some [4 :: int])
        (trigger_widget_init\<lparr>selectedAllocationId := Some 4\<rparr>)) = ''S230401a''
   \<and> triggerList
     (getTriggers (\<lambda>allocation_id. Some \<lparr>response_data = Some \<lparr>trigger_names = Some []\<rparr>\<rparr>)
        (Some [4 :: int])
        (trigger_widget_init\<lparr>selectedAllocationId := Some 4, triggerList := [''S230401a''],
           selectedTriggerName := ''S230401a''\<rparr>)) = [''None'']
   \<and> selectedTriggerName
     (getTriggers (\<lambda>allocation_id. Some \<lparr>response_data = Some \<lparr>trigger_names = Some []\<rparr>\<rparr>)
        (Some [4 :: int])
        (trigger_widget_init\<lparr>selectedAllocationId := Some 4, triggerList := [''S230401a''],
           selectedTriggerName := ''S230401a''\<rparr>)) = ''None''"
proof -
  have a: "selectedAllocationId (trigger_widget_init\<lparr>selectedAllocationId := Some 4\<rparr>) = Some 4"
    by simp
  have b: "selectedAllocationId
             (trigger_widget_init\<lparr>selectedAllocationId := Some 4, triggerList := [''S230401a''],
                selectedTriggerName := ''S230401a''\<rparr>) = Some 4"
    by simp
  have nz: "(4::int) \<noteq> 0" by simp
  have ne: "[4::int] \<noteq> []" by simp
  from getTriggers_selected_in_list[OF a nz refl ne, of "\<lambda>allocation_id. example_triggers_response"]
    getTriggers_selected_in_list[OF b nz refl ne,
      of "\<lambda>allocation_id. Some \<lparr>response_data = Some \<lparr>trigger_names = Some []\<rparr>\<rparr>"]
  show ?thesis by (simp add: example_triggers_response_def)
qed

section \<open>Properties of the Recent Events widget\<close>

text \<open>
  Claim C7 (length of the rendered list), as the code has it. The widget renders one
  item for each event of the store, none when the store is missing; the preference
  \<open>maxNumEvents\<close> is the initial value of the preferences dialog and nothing else, and
  it is "5" when no preference is stored.
\<close>

theorem recent_events_renders_whole_store:
  "length (eventList (RecentGcnEvents storedPrefs gcnEvents)) =
     (case gcnEvents of None \<Rightarrow> 0 | Some events \<Rightarrow> length events)
 \<and> dialog_maxNumEvents (RecentGcnEvents storedPrefs gcnEvents) =
     maxNumEvents (recentEventsPrefs storedPrefs)
 \<and> maxNumEvents (recentEventsPrefs None) = ''5''"
  by (simp add: RecentGcnEvents_def recentEventsPrefs_def defaultPrefs_def split: option.splits)

text \<open>
  The claim as it is written fails: with no preference stored (so \<open>maxNumEvents\<close> is "5")
  and six events in the store, the widget renders six items.
\<close>

theorem recent_events_not_bounded_by_preference:
  "maxNumEvents (recentEventsPrefs None) = ''5''
   \<and> length (eventList (RecentGcnEvents None (Some six_recent_events))) = 6
   \<and> \<not> length (eventList (RecentGcnEvents None (Some six_recent_events))) \<le> 5"
  by (simp add: RecentGcnEvents_def recentEventsPrefs_def defaultPrefs_def six_recent_events_def)

end
